theory Spec2Isabelle
  imports Complex_Main "HOL-Library.Word" "HOL-Library.Char_ord" "HOL-Library.List_Lexorder"
begin

section \<open>Image-to-story front end: speech backends, voice catalogue, dispatch\<close>

text \<open>
  A shallow embedding of \<^verbatim>\<open>src/app.py\<close>. The script talks to three hosted services
  (Gemini, ElevenLabs, gTTS), to Streamlit and to the temporary directory. Each of them is
  outside the repository, so what it answers is a field of the record \<open>world\<close>; every call
  that may raise answers \<open>Inl e\<close> (the exception) or \<open>Inr v\<close> (the value). What the script
  does to the outside (Streamlit output, backend calls, temporary files) is recorded in the
  state \<open>app_state\<close>, passed through every function and returned updated.
\<close>

subsection \<open>Values\<close>

type_synonym bytes = "8 word list"

text \<open>
  A Python exception, with the text \<^verbatim>\<open>str(e)\<close> that the f-strings interpolate.
  \<open>NameError v\<close> is the exception Python raises when the unbound name \<open>v\<close> is read,
  \<open>TypeError m\<close> the one it raises when an operator does not apply to its operands; every
  other exception is \<open>PyException\<close> with its text.
\<close>

datatype py_exception = PyException string | NameError string | TypeError string

fun str :: "py_exception \<Rightarrow> string" where
  "str (PyException m) = m"
| "str (NameError v) = ''name '' @ [CHR 0x27] @ v @ [CHR 0x27] @ '' is not defined''"
| "str (TypeError m) = m"

type_synonym 'a raising = "py_exception + 'a"

text \<open>
  The value of the \<^verbatim>\<open>name\<close> attribute of a voice record: the backend's records declare it as
  an optional string, so it is a string or \<^verbatim>\<open>None\<close>.
\<close>

datatype py_name = NameStr string | NameNone

text \<open>
  An item of the voice list, seen through the two things the script does with it:
  \<^verbatim>\<open>hasattr(voice, 'name')\<close> is true and \<^verbatim>\<open>voice.name\<close> has a value (\<open>Named\<close>), it is
  false (\<open>Nameless\<close>), or the attribute access raises (\<open>NameRaises\<close>, the inner
  \<^verbatim>\<open>except Exception\<close> of line 247).
\<close>

datatype voice_item = Named py_name | Nameless | NameRaises py_exception

text \<open>
  What \<^verbatim>\<open>elevenlabs_client.voices.get_all()\<close> may return, as far as the \<^verbatim>\<open>isinstance\<close>
  tests of lines 216 to 228 tell values apart. \<open>pyobj\<close> is an attribute value or a tuple
  element: a list of voice items, or anything else.
\<close>

datatype pyobj = PyList "voice_item list" | PyOther

datatype voices_result =
    GetVoicesResponse "pyobj option"
  | PyTuple "pyobj list"
  | DirectList "voice_item list"
  | OtherResult

text \<open>
  What \<^verbatim>\<open>elevenlabs_client.generate\<close> returns: an object without \<^verbatim>\<open>__iter__\<close>, or a stream
  that yields some chunks and then ends (\<open>None\<close>) or raises (\<open>Some e\<close>).
\<close>

datatype audio_stream = NotIterable | Stream "bytes list" "py_exception option"

record VoiceSettings =
  stability :: real
  similarity_boost :: real

text \<open>The keyword arguments of \<^verbatim>\<open>elevenlabs_client.generate\<close> (\<^verbatim>\<open>generate_params\<close>).\<close>

record gen_params =
  gp_text :: string
  gp_voice :: string
  gp_model :: string
  gp_voice_settings :: "VoiceSettings option"

text \<open>An ElevenLabs client, holding the key it was built with.\<close>

datatype client = Client string

text \<open>
  The Gemini response: its candidates, each the list of the texts of its parts.
\<close>

type_synonym gemini_response = "string list list"

datatype image_data = BytesIO bytes | RawBytes bytes | PILImage "bytes raising"

subsection \<open>Streamlit output and backend calls\<close>

text \<open>
  The diagnostics, one constructor per \<^verbatim>\<open>st.error\<close>, \<^verbatim>\<open>st.warning\<close> or \<^verbatim>\<open>st.info\<close> call of
  the script, carrying what its message interpolates:
  \<^item> \<open>ElevenLabsInitFailed\<close> line 50, \<open>ElevenLabsKeyFailed\<close> line 55;
  \<^item> \<open>GeminiUnexpected\<close> line 93, \<open>GeminiApiError\<close> line 98;
  \<^item> \<open>StreamNotIterable\<close> line 135, \<open>ElevenLabsSpeechError\<close> line 150, \<open>GttsError\<close> line 164;
  \<^item> \<open>HandledTuple\<close> line 221, \<open>HandledDirectList\<close> line 225, \<open>UnexpectedStructure\<close> line 227;
  \<^item> \<open>ItemNoName\<close> line 244, \<open>ItemError\<close> line 248;
  \<^item> \<open>NoUsableVoices\<close> line 259, \<open>VoicesFetchFailed\<close> line 263;
  \<^item> \<open>RereadFailed\<close> line 293, \<open>NoAudio\<close> line 318, \<open>NoImage\<close> line 320,
    \<open>UploadFirst\<close> line 323, \<open>EnterPrompt\<close> line 325, \<open>GeminiNotConfigured\<close> line 327,
    \<open>UploadToEnable\<close> line 329.
\<close>

datatype diag =
    ElevenLabsInitFailed py_exception
  | ElevenLabsKeyFailed py_exception
  | GeminiUnexpected
  | GeminiApiError py_exception
  | StreamNotIterable
  | ElevenLabsSpeechError py_exception
  | GttsError py_exception
  | HandledTuple
  | HandledDirectList
  | UnexpectedStructure
  | ItemNoName voice_item
  | ItemError voice_item py_exception
  | NoUsableVoices
  | VoicesFetchFailed py_exception
  | RereadFailed py_exception
  | NoAudio
  | NoImage
  | UploadFirst
  | EnterPrompt
  | GeminiNotConfigured
  | UploadToEnable

text \<open>
  The events of a run, in order: Streamlit calls (\<open>St...\<close>; the emoji of the headings are
  left out) and calls of the backends (\<open>VoicesGetAll\<close> for
  \<^verbatim>\<open>elevenlabs_client.voices.get_all()\<close>, \<open>Generate\<close> for \<^verbatim>\<open>elevenlabs_client.generate\<close>,
  \<open>Gtts text lang slow\<close> for \<^verbatim>\<open>gTTS(text=..., lang=..., slow=...)\<close>, \<open>GenerateContent\<close> for
  \<^verbatim>\<open>vision_model.generate_content\<close> with the MIME type, the image bytes and the text part).
\<close>

datatype event =
    StError diag
  | StWarning diag
  | StInfo diag
  | StText string
  | StSubheader string
  | StWrite string
  | StAudio bytes string
  | VoicesGetAll
  | Generate gen_params
  | Gtts string string bool
  | GenerateContent string bytes string

record app_state =
  events :: "event list"
  files :: "string \<rightharpoonup> bytes"

definition emit :: "event \<Rightarrow> app_state \<Rightarrow> app_state" where
  "emit ev s = s\<lparr>events := events s @ [ev]\<rparr>"

subsection \<open>The outside world\<close>

text \<open>
  \<^item> \<open>secrets_get\<close>: \<^verbatim>\<open>st.secrets.get("ELEVENLABS_API_KEY", "")\<close>;
  \<^item> \<open>ElevenLabs\<close>: the client constructor of line 43;
  \<^item> \<open>probe_get_all\<close>: the \<^verbatim>\<open>voices.get_all()\<close> of line 47, \<open>list_get_all\<close>: that of line 211;
  \<^item> \<open>generate\<close>: \<^verbatim>\<open>elevenlabs_client.generate(**generate_params)\<close>;
  \<^item> \<open>tmp_name\<close>: the name \<^verbatim>\<open>NamedTemporaryFile\<close> picks; \<open>tmp_create\<close>, \<open>tmp_write\<close>,
    \<open>tmp_unlink\<close>: the exception that creating, writing (and closing) or unlinking the file
    raises, if any;
  \<^item> \<open>gtts\<close>: \<^verbatim>\<open>gTTS(text=text, lang='en', slow=False)\<close> and \<^verbatim>\<open>write_to_fp\<close>, the bytes read
    back from the buffer;
  \<^item> \<open>generate_content\<close>: \<^verbatim>\<open>vision_model.generate_content\<close>.
\<close>

record world =
  secrets_get :: "string raising"
  ElevenLabs :: "string \<Rightarrow> client raising"
  probe_get_all :: "voices_result raising"
  list_get_all :: "voices_result raising"
  generate :: "gen_params \<Rightarrow> audio_stream raising"
  tmp_name :: string
  tmp_create :: "py_exception option"
  tmp_write :: "py_exception option"
  tmp_unlink :: "py_exception option"
  gtts :: "string \<Rightarrow> string \<Rightarrow> bool \<Rightarrow> bytes raising"
  generate_content :: "string \<Rightarrow> bytes \<Rightarrow> string \<Rightarrow> gemini_response raising"

text \<open>The module-level variables that the functions read.\<close>

record globals =
  gemini_api_configured :: bool
  elevenlabs_client :: "client option"
  elevenlabs_configured :: bool

subsection \<open>ElevenLabs configuration (lines 36 to 56)\<close>

definition configure_elevenlabs :: "world \<Rightarrow> app_state \<Rightarrow> app_state \<times> client option \<times> bool" where
  "configure_elevenlabs w s =
     (case secrets_get w of
        Inl e \<Rightarrow> (emit (StError (ElevenLabsKeyFailed e)) s, None, False)
      | Inr elevenlabs_api_key \<Rightarrow>
          if elevenlabs_api_key \<noteq> [] then
            (case ElevenLabs w elevenlabs_api_key of
               Inl e \<Rightarrow> (emit (StError (ElevenLabsInitFailed e)) s, None, False)
             | Inr c \<Rightarrow>
                 (let s1 = emit VoicesGetAll s in
                  case probe_get_all w of
                    Inl e \<Rightarrow> (emit (StError (ElevenLabsInitFailed e)) s1, Some c, False)
                  | Inr test_voices_fetch \<Rightarrow> (s1, Some c, True)))
          else (s, None, False))"

subsection \<open>Speech synthesis (lines 102 to 165)\<close>

text \<open>
  \<^verbatim>\<open>voice_settings\<close> is a dict or \<^verbatim>\<open>None\<close>; the dict is its list of items, so that
  \<^verbatim>\<open>if voice_settings:\<close> is \<open>\<noteq> []\<close> and \<^verbatim>\<open>voice_settings.get(k, d)\<close> is \<open>dict_get\<close>.
\<close>

type_synonym settings = "(string \<times> real) list"

definition dict_get :: "settings \<Rightarrow> string \<Rightarrow> real \<Rightarrow> real" where
  "dict_get m k d = (case map_of m k of None \<Rightarrow> d | Some v \<Rightarrow> v)"

text \<open>Lines 109 to 125: the parameters prepared for \<^verbatim>\<open>generate\<close>.\<close>

definition generate_params :: "string \<Rightarrow> string \<Rightarrow> settings option \<Rightarrow> gen_params" where
  "generate_params text' voice voice_settings =
     \<lparr>gp_text = text', gp_voice = voice, gp_model = ''eleven_multilingual_v2'',
      gp_voice_settings =
        (case voice_settings of
           None \<Rightarrow> None
         | Some m \<Rightarrow>
             if m \<noteq> [] then
               Some \<lparr>stability = dict_get m ''stability'' 0.5,
                     similarity_boost = dict_get m ''clarity'' 0.75\<rparr>
             else None)\<rparr>"

text \<open>
  Lines 108 to 148, the body of the \<^verbatim>\<open>try\<close>: \<open>Inl e\<close> when a statement raises \<open>e\<close>, with the
  state reached by then. The \<^verbatim>\<open>with\<close> block closes the file when it is left, also by an
  exception; the file was made with \<^verbatim>\<open>delete=False\<close>, so closing does not remove it.
\<close>

definition elevenlabs_try :: "world \<Rightarrow> string \<Rightarrow> string \<Rightarrow> settings option \<Rightarrow> app_state
    \<Rightarrow> app_state \<times> bytes option raising" where
  "elevenlabs_try w text' voice voice_settings s =
     (let params = generate_params text' voice voice_settings;
          s1 = emit (Generate params) s
      in case generate w params of
           Inl e \<Rightarrow> (s1, Inl e)
         | Inr NotIterable \<Rightarrow> (emit (StError StreamNotIterable) s1, Inr None)
         | Inr (Stream chunks (Some e)) \<Rightarrow> (s1, Inl e)
         | Inr (Stream chunks None) \<Rightarrow>
             (let audio_bytes = concat chunks in
              case tmp_create w of
                Some e \<Rightarrow> (s1, Inl e)
              | None \<Rightarrow>
                  (let s2 = s1\<lparr>files := (files s1)(tmp_name w \<mapsto> [])\<rparr> in
                   case tmp_write w of
                     Some e \<Rightarrow> (s2, Inl e)
                   | None \<Rightarrow>
                       (let s3 = s2\<lparr>files := (files s2)(tmp_name w \<mapsto> audio_bytes)\<rparr> in
                        case tmp_unlink w of
                          Some e \<Rightarrow> (s3, Inl e)
                        | None \<Rightarrow>
                            (s3\<lparr>files := (files s3)(tmp_name w := None)\<rparr>,
                             Inr (Some audio_bytes))))))"

definition convert_text_to_speech_elevenlabs :: "world \<Rightarrow> globals \<Rightarrow> string \<Rightarrow> string
    \<Rightarrow> settings option \<Rightarrow> app_state \<Rightarrow> app_state \<times> bytes option" where
  "convert_text_to_speech_elevenlabs w g text' voice voice_settings s =
     (if text' = [] \<or> elevenlabs_client g = None then (s, None)
      else case elevenlabs_try w text' voice voice_settings s of
             (s', Inl e) \<Rightarrow> (emit (StError (ElevenLabsSpeechError e)) s', None)
           | (s', Inr r) \<Rightarrow> (s', r))"

text \<open>Lines 158 to 162, the body of the \<^verbatim>\<open>try\<close> of the fallback.\<close>

definition gtts_try :: "world \<Rightarrow> string \<Rightarrow> app_state \<Rightarrow> app_state \<times> bytes option raising" where
  "gtts_try w text' s =
     (let s1 = emit (Gtts text' ''en'' False) s
      in case gtts w text' ''en'' False of
           Inl e \<Rightarrow> (s1, Inl e)
         | Inr audio \<Rightarrow> (s1, Inr (Some audio)))"

definition convert_text_to_speech_gtts :: "world \<Rightarrow> string \<Rightarrow> app_state \<Rightarrow> app_state \<times> bytes option" where
  "convert_text_to_speech_gtts w text' s =
     (if text' = [] then (s, None)
      else case gtts_try w text' s of
             (s', Inl e) \<Rightarrow> (emit (StError (GttsError e)) s', None)
           | (s', Inr r) \<Rightarrow> (s', r))"

subsection \<open>Voice catalogue (lines 203 to 277)\<close>

text \<open>Lines 214 to 228: the list of voice items in the three shapes of the response.\<close>

fun extract_voice_list :: "voices_result \<Rightarrow> app_state \<Rightarrow> app_state \<times> voice_item list" where
  "extract_voice_list (GetVoicesResponse (Some (PyList vs))) s = (s, vs)"
| "extract_voice_list (PyTuple (x # PyList vs # rest)) s = (emit (StInfo HandledTuple) s, vs)"
| "extract_voice_list (DirectList vs) s = (emit (StInfo HandledDirectList) s, vs)"
| "extract_voice_list voices_result s = (emit (StWarning UnexpectedStructure) s, [])"

text \<open>Lines 234 to 249: the loop over the items; \<open>acc\<close> is \<^verbatim>\<open>voice_names\<close>.\<close>

fun collect_voice_names :: "voice_item list \<Rightarrow> py_name list \<Rightarrow> app_state
    \<Rightarrow> app_state \<times> py_name list" where
  "collect_voice_names [] acc s = (s, acc)"
| "collect_voice_names (Named n # vs) acc s = collect_voice_names vs (acc @ [n]) s"
| "collect_voice_names (Nameless # vs) acc s =
     collect_voice_names vs acc (emit (StWarning (ItemNoName Nameless)) s)"
| "collect_voice_names (NameRaises e # vs) acc s =
     collect_voice_names vs acc (emit (StWarning (ItemError (NameRaises e) e)) s)"

text \<open>
  \<^verbatim>\<open>voice_names.sort()\<close> (line 254). Sorting compares every element of a list of two or more
  with another one, and \<^verbatim>\<open><\<close> is not defined between \<^verbatim>\<open>None\<close> and anything: such a list with
  a \<^verbatim>\<open>None\<close> in it raises \<^verbatim>\<open>TypeError\<close>. The message names the types of the two operands of
  the comparison that failed, in an order that depends on the order of the list; the model
  keeps one of the two orders. A list of strings is sorted by code point, which is the
  byte-wise order of the UTF-8 strings of the model.
\<close>

definition sort_type_error :: py_exception where
  "sort_type_error =
     TypeError ([CHR 0x27] @ ''<'' @ [CHR 0x27] @ '' not supported between instances of ''
                @ [CHR 0x27] @ ''NoneType'' @ [CHR 0x27] @ '' and ''
                @ [CHR 0x27] @ ''str'' @ [CHR 0x27])"

fun strings_of :: "py_name list \<Rightarrow> string list" where
  "strings_of [] = []"
| "strings_of (NameStr n # ns) = n # strings_of ns"
| "strings_of (NameNone # ns) = strings_of ns"

definition py_sort :: "py_name list \<Rightarrow> py_name list raising" where
  "py_sort ns =
     (if NameNone \<in> set ns
      then (if 2 \<le> length ns then Inl sort_type_error else Inr ns)
      else Inr (map NameStr (sort (strings_of ns))))"

text \<open>
  Lines 214 to 254. \<^verbatim>\<open>list(set(voice_names))\<close> lists each name once, in an order Python
  does not fix, and \<^verbatim>\<open>sort()\<close> then orders the list or raises; the outcome does not depend
  on the order before (\<open>sort_of_any_listing\<close> below), so \<open>remdups\<close> stands for it.
\<close>

definition voice_names_of :: "voices_result \<Rightarrow> app_state \<Rightarrow> app_state \<times> py_name list raising" where
  "voice_names_of voices_result s =
     (let (s1, voices_list_objects) = extract_voice_list voices_result s;
          (s2, voice_names) =
            (if voices_list_objects \<noteq> [] then collect_voice_names voices_list_objects [] s1
             else (s1, []))
      in (s2, py_sort (remdups voice_names)))"

text \<open>
  \<^verbatim>\<open>st.selectbox("Choose a voice:", voice_names, index=0)\<close>: the option the user chose,
  the first one when nothing was chosen; only called on a non-empty list.
\<close>

definition selectbox :: "'a list \<Rightarrow> nat \<Rightarrow> 'a" where
  "selectbox opts choice = opts ! (if choice < length opts then choice else 0)"

text \<open>
  \<^verbatim>\<open>st.slider(label, min_value, max_value, value, step)\<close>: the position the user set, which
  the widget keeps between \<open>min_value\<close> and \<open>max_value\<close>; \<open>value\<close> is where the slider stands
  before the user moves it and \<open>step\<close> its grid.
\<close>

definition st_slider :: "real \<Rightarrow> real \<Rightarrow> real \<Rightarrow> real \<Rightarrow> real \<Rightarrow> real" where
  "st_slider min_value max_value value step position = max min_value (min max_value position)"

text \<open>
  What the user does on the page: the option chosen in the select box, the positions of the
  two sliders, the upload as line 283 sees it (\<open>None\<close> when nothing was uploaded or the image
  could not be opened, else what reading it again at lines 290 and 291 gives), the prompt,
  and whether the button was clicked.
\<close>

record ui_inputs =
  voice_choice :: nat
  stability_slider :: real
  clarity_slider :: real
  uploaded_file :: "bytes raising option"
  story_prompt :: string
  button_clicked :: bool

text \<open>
  Lines 210 to 260, the body of the \<^verbatim>\<open>try\<close>: the listing call and the sort are the statements
  that raise. The selected voice is a string or \<^verbatim>\<open>None\<close> (\<open>None\<close>).
\<close>

definition voices_try :: "world \<Rightarrow> nat \<Rightarrow> app_state \<Rightarrow> app_state \<times> string option raising" where
  "voices_try w choice s =
     (let s1 = emit VoicesGetAll s
      in case list_get_all w of
           Inl e \<Rightarrow> (s1, Inl e)
         | Inr voices_result \<Rightarrow>
             (case voice_names_of voices_result s1 of
                (s2, Inl e) \<Rightarrow> (s2, Inl e)
              | (s2, Inr voice_names) \<Rightarrow>
                  if voice_names \<noteq> [] then
                    (s2, Inr (case selectbox voice_names choice of
                                NameStr v \<Rightarrow> Some v
                              | NameNone \<Rightarrow> None))
                  else (emit (StWarning NoUsableVoices) s2, Inr (Some ''Rachel''))))"

text \<open>Lines 203 to 277: the selected voice and the voice settings.\<close>

definition voice_options :: "world \<Rightarrow> globals \<Rightarrow> ui_inputs \<Rightarrow> app_state
    \<Rightarrow> app_state \<times> string option \<times> settings option" where
  "voice_options w g ui s =
     (case elevenlabs_client g of
        Some c \<Rightarrow>
          (let s0 = emit (StText ''Using ElevenLabs for human-like voice.'') s;
               (s1, selected_voice) =
                 (case voices_try w (voice_choice ui) s0 of
                    (s', Inl e) \<Rightarrow> (emit (StError (VoicesFetchFailed e)) s', Some ''Rachel'')
                  | (s', Inr v) \<Rightarrow> (s', v));
               stability = st_slider 0.0 1.0 0.5 0.01 (stability_slider ui);
               clarity = st_slider 0.0 1.0 0.75 0.01 (clarity_slider ui)
           in (s1, selected_voice, Some [(''stability'', stability), (''clarity'', clarity)]))
      | None \<Rightarrow>
          (emit (StText ''Using Google TTS (Standard voice) as ElevenLabs client is not configured.'') s,
           None, None))"

subsection \<open>Story generation (lines 60 to 99)\<close>

definition story_try :: "world \<Rightarrow> image_data \<Rightarrow> string \<Rightarrow> app_state \<Rightarrow> app_state \<times> string raising" where
  "story_try w image_data prompt s =
     (case (case image_data of BytesIO b \<Rightarrow> Inr b | RawBytes b \<Rightarrow> Inr b | PILImage r \<Rightarrow> r) of
        Inl e \<Rightarrow> (s, Inl e)
      | Inr img_bytes \<Rightarrow>
          (let text_part = [CHR 0x0A, CHR 0x0A] @ prompt;
               s1 = emit (GenerateContent ''image/png'' img_bytes text_part) s
           in case generate_content w ''image/png'' img_bytes text_part of
                Inl e \<Rightarrow> (s1, Inl e)
              | Inr response \<Rightarrow>
                  (case response of
                     (part # parts) # candidates \<Rightarrow> (s1, Inr part)
                   | _ \<Rightarrow>
                       (emit (StWarning GeminiUnexpected) s1,
                        Inr ''Could not generate a story from the image. The response was empty or malformed.''))))"

definition generate_story_from_image :: "world \<Rightarrow> globals \<Rightarrow> image_data \<Rightarrow> string \<Rightarrow> app_state
    \<Rightarrow> app_state \<times> string" where
  "generate_story_from_image w g image_data prompt s =
     (if \<not> gemini_api_configured g
      then (s, ''Story generation unavailable due to API configuration issues.'')
      else case story_try w image_data prompt s of
             (s', Inl e) \<Rightarrow>
               (emit (StError (GeminiApiError e)) s',
                ''An error occurred during story generation: '' @ str e)
           | (s', Inr story) \<Rightarrow> (s', story))"

subsection \<open>The button (lines 280 to 329)\<close>

definition startswith :: "string \<Rightarrow> string \<Rightarrow> bool" where
  "startswith s p = (take (length p) s = p)"

text \<open>The condition of line 301.\<close>

definition story_usable :: "string \<Rightarrow> bool" where
  "story_usable generated_story =
     (generated_story \<noteq> []
      \<and> \<not> startswith generated_story ''An error occurred''
      \<and> \<not> startswith generated_story ''Story generation unavailable''
      \<and> \<not> startswith generated_story ''Could not generate'')"

text \<open>The condition of line 307: \<^verbatim>\<open>elevenlabs_client and selected_voice\<close>.\<close>

definition primary_selected :: "globals \<Rightarrow> string option \<Rightarrow> bool" where
  "primary_selected g selected_voice =
     (elevenlabs_client g \<noteq> None \<and> selected_voice \<noteq> None \<and> selected_voice \<noteq> Some [])"

text \<open>Lines 305 to 312: the dispatch to one of the two backends.\<close>

definition dispatch_speech :: "world \<Rightarrow> globals \<Rightarrow> string \<Rightarrow> string option \<Rightarrow> settings option
    \<Rightarrow> app_state \<Rightarrow> app_state \<times> bytes option" where
  "dispatch_speech w g generated_story selected_voice voice_settings s =
     (if primary_selected g selected_voice
      then convert_text_to_speech_elevenlabs w g generated_story
             (case selected_voice of Some v \<Rightarrow> v | None \<Rightarrow> []) voice_settings s
      else convert_text_to_speech_gtts w generated_story s)"

text \<open>
  Lines 301 to 318. \<^verbatim>\<open>audio_bytes\<close> is assigned only inside the \<^verbatim>\<open>if\<close> of line 301, and
  Streamlit runs the script in a fresh namespace each time, so when the condition fails
  line 314 reads an unbound name and the run ends with \<open>NameError\<close>. The second component
  is the exception that ends the run, if any.
\<close>

definition present_story :: "world \<Rightarrow> globals \<Rightarrow> string \<Rightarrow> string option \<Rightarrow> settings option
    \<Rightarrow> app_state \<Rightarrow> app_state \<times> py_exception option" where
  "present_story w g generated_story selected_voice voice_settings s =
     (if story_usable generated_story then
        (let s1 = emit (StWrite generated_story) (emit (StSubheader ''Generated Story:'') s);
             (s2, audio_bytes) = dispatch_speech w g generated_story selected_voice voice_settings s1
         in case audio_bytes of
              None \<Rightarrow> (emit (StWarning NoAudio) s2, None)
            | Some b \<Rightarrow>
                if b \<noteq> []
                then (emit (StAudio b ''audio/mp3'') (emit (StSubheader ''Listen to the Story:'') s2), None)
                else (emit (StWarning NoAudio) s2, None))
      else (s, Some (NameError ''audio_bytes'')))"

text \<open>\<^verbatim>\<open>st.button(..., disabled=button_disabled)\<close>: a disabled button is never clicked.\<close>

definition st_button :: "bool \<Rightarrow> bool \<Rightarrow> bool" where
  "st_button clicked disabled = (clicked \<and> \<not> disabled)"

definition create_story_and_speech :: "world \<Rightarrow> globals \<Rightarrow> ui_inputs \<Rightarrow> string option
    \<Rightarrow> settings option \<Rightarrow> app_state \<Rightarrow> app_state \<times> py_exception option" where
  "create_story_and_speech w g ui selected_voice voice_settings s =
     (let button_disabled = (\<not> gemini_api_configured g \<or> uploaded_file ui = None)
      in if st_button (button_clicked ui) button_disabled then
           (case uploaded_file ui of
              Some f \<Rightarrow>
                if story_prompt ui \<noteq> [] then
                  (case f of
                     Inl e \<Rightarrow> (emit (StWarning NoImage) (emit (StError (RereadFailed e)) s), None)
                   | Inr b \<Rightarrow>
                       (let (s1, generated_story) =
                              generate_story_from_image w g (BytesIO b) (story_prompt ui) s
                        in present_story w g generated_story selected_voice voice_settings s1))
                else (emit (StWarning EnterPrompt) s, None)
            | None \<Rightarrow> (emit (StWarning UploadFirst) s, None))
         else if \<not> gemini_api_configured g then (emit (StWarning GeminiNotConfigured) s, None)
         else if uploaded_file ui = None then (emit (StWarning UploadToEnable) s, None)
         else (s, None))"

subsection \<open>One run of the script\<close>

definition startup :: "world \<Rightarrow> bool \<Rightarrow> app_state \<Rightarrow> app_state \<times> globals" where
  "startup w gemini s =
     (let (s1, c, configured) = configure_elevenlabs w s
      in (s1, \<lparr>gemini_api_configured = gemini, elevenlabs_client = c,
               elevenlabs_configured = configured\<rparr>))"

definition run_app :: "world \<Rightarrow> bool \<Rightarrow> ui_inputs \<Rightarrow> app_state \<Rightarrow> app_state \<times> py_exception option" where
  "run_app w gemini ui s =
     (let (s1, g) = startup w gemini s;
          (s2, selected_voice, voice_settings) = voice_options w g ui s1
      in create_story_and_speech w g ui selected_voice voice_settings s2)"

subsection \<open>Reading a run\<close>

fun is_primary_call :: "event \<Rightarrow> bool" where
  "is_primary_call (Generate p) = True"
| "is_primary_call ev = False"

fun is_synthesis_call :: "event \<Rightarrow> bool" where
  "is_synthesis_call (Generate p) = True"
| "is_synthesis_call (Gtts t l sl) = True"
| "is_synthesis_call ev = False"

fun is_audio_player :: "event \<Rightarrow> bool" where
  "is_audio_player (StAudio b f) = True"
| "is_audio_player ev = False"

fun is_diagnostic :: "event \<Rightarrow> bool" where
  "is_diagnostic (StError d) = True"
| "is_diagnostic (StWarning d) = True"
| "is_diagnostic (StInfo d) = True"
| "is_diagnostic ev = False"

definition primary_calls :: "app_state \<Rightarrow> event list" where
  "primary_calls s = filter is_primary_call (events s)"

definition synthesis_calls :: "app_state \<Rightarrow> event list" where
  "synthesis_calls s = filter is_synthesis_call (events s)"

definition audio_players :: "app_state \<Rightarrow> event list" where
  "audio_players s = filter is_audio_player (events s)"

text \<open>
  The names a list of voice items exposes, in order, and the warning each item causes:
  what the loop of lines 234 to 249 is compared with.
\<close>

fun names_of :: "voice_item list \<Rightarrow> py_name list" where
  "names_of [] = []"
| "names_of (Named n # vs) = n # names_of vs"
| "names_of (v # vs) = names_of vs"

fun item_warning :: "voice_item \<Rightarrow> event list" where
  "item_warning (Named n) = []"
| "item_warning Nameless = [StWarning (ItemNoName Nameless)]"
| "item_warning (NameRaises e) = [StWarning (ItemError (NameRaises e) e)]"

text \<open>
  A narrative that starts with one of the three prefixes line 301 tests, which are the
  starts of the three failure strings \<^verbatim>\<open>generate_story_from_image\<close> returns.
\<close>

definition failure_sentinel :: "string \<Rightarrow> bool" where
  "failure_sentinel story =
     (startswith story ''An error occurred''
      \<or> startswith story ''Story generation unavailable''
      \<or> startswith story ''Could not generate'')"

subsection \<open>Concrete worlds and inputs\<close>

definition init_state :: app_state where
  "init_state = \<lparr>events = [], files = Map.empty\<rparr>"

definition good_world :: world where
  "good_world =
     \<lparr>secrets_get = Inr ''sk-test'',
      ElevenLabs = (\<lambda>k. Inr (Client k)),
      probe_get_all = Inr (GetVoicesResponse (Some (PyList
        [Named (NameStr ''Rachel''), Named (NameStr ''Aria'')]))),
      list_get_all = Inr (GetVoicesResponse (Some (PyList
        [Named (NameStr ''Rachel''), Named (NameStr ''Aria'')]))),
      generate = (\<lambda>p. Inr (Stream [[0x49, 0x44], [0x33]] None)),
      tmp_name = ''/tmp/tmpk3v9.mp3'',
      tmp_create = None,
      tmp_write = None,
      tmp_unlink = None,
      gtts = (\<lambda>t l sl. Inr [0xFF, 0xFB]),
      generate_content = (\<lambda>m b t. Inr [[''Once upon a time.'']])\<rparr>"

definition good_inputs :: ui_inputs where
  "good_inputs =
     \<lparr>voice_choice = 0, stability_slider = 0.3, clarity_slider = 0.9,
      uploaded_file = Some (Inr [0x89, 0x50]), story_prompt = ''Tell a short story'',
      button_clicked = True\<rparr>"

definition good_globals :: globals where
  "good_globals =
     \<lparr>gemini_api_configured = True, elevenlabs_client = Some (Client ''sk-test''),
      elevenlabs_configured = True\<rparr>"

text \<open>
  An invalid key: the client is built, and every call made with it is refused. A listing
  that times out. A listing in which one voice has no name (its \<^verbatim>\<open>name\<close> is \<^verbatim>\<open>None\<close>). A full
  disk. Backends that refuse every synthesis call.
\<close>

definition none_name_voices :: "voice_item list" where
  "none_name_voices = [Named (NameStr ''Rachel''), Named NameNone, Named (NameStr ''Aria'')]"

definition none_name_world :: world where
  "none_name_world =
     good_world\<lparr>list_get_all := Inr (GetVoicesResponse (Some (PyList none_name_voices)))\<rparr>"

definition probe_fails_world :: world where
  "probe_fails_world =
     good_world\<lparr>probe_get_all := Inl (PyException ''401 Unauthorized''),
                 list_get_all := Inl (PyException ''401 Unauthorized''),
                 generate := (\<lambda>p. Inl (PyException ''401 Unauthorized''))\<rparr>"

definition probe_fails_globals :: globals where
  "probe_fails_globals =
     \<lparr>gemini_api_configured = True, elevenlabs_client = Some (Client ''sk-test''),
      elevenlabs_configured = False\<rparr>"

definition listing_fails_world :: world where
  "listing_fails_world = good_world\<lparr>list_get_all := Inl (PyException ''Connection timed out'')\<rparr>"

definition write_fails_world :: world where
  "write_fails_world =
     good_world\<lparr>tmp_write := Some (PyException ''[Errno 28] No space left on device'')\<rparr>"

definition generate_fails_world :: world where
  "generate_fails_world =
     good_world\<lparr>generate := (\<lambda>p. Inl (PyException ''quota exceeded'')),
                 gtts := (\<lambda>t l sl. Inl (PyException ''Failed to connect''))\<rparr>"

section \<open>Properties\<close>

subsection \<open>Basic facts\<close>

lemma emit_events [simp]: "events (emit ev s) = events s @ [ev]"
  by (simp add: emit_def)

lemma emit_files [simp]: "files (emit ev s) = files s"
  by (simp add: emit_def)

text \<open>The loop collects the exposed names in order and warns once per other item.\<close>

lemma collect_voice_names_eq:
  "collect_voice_names vs acc s =
     (s\<lparr>events := events s @ concat (map item_warning vs)\<rparr>, acc @ names_of vs)"
proof (induction vs acc s rule: collect_voice_names.induct)
  case (1 acc s)
  show ?case by simp
next
  case (2 n vs acc s)
  then show ?case by simp
next
  case (3 vs acc s)
  then show ?case by (simp add: emit_def)
next
  case (4 e vs acc s)
  then show ?case by (simp add: emit_def)
qed

text \<open>The strings among names.\<close>

lemma strings_of_set: "set (strings_of ns) = {n. NameStr n \<in> set ns}"
  by (induction ns rule: strings_of.induct) auto


lemma strings_of_distinct: "distinct ns \<Longrightarrow> distinct (strings_of ns)"
  by (induction ns rule: strings_of.induct) (auto simp: strings_of_set)

lemma strings_of_remdups: "strings_of (remdups ns) = remdups (strings_of ns)"
  by (induction ns rule: strings_of.induct) (auto simp: strings_of_set)

lemma py_sort_strings:
  "NameNone \<notin> set ns \<Longrightarrow> py_sort ns = Inr (map NameStr (sort (strings_of ns)))"
  by (simp add: py_sort_def)

lemma sort_distinct_strings:
  fixes ys zs :: "string list"
  assumes "distinct ys" and "distinct zs" and "set ys = set zs"
  shows "sort ys = sort zs"
proof -
  have "sort ys = sorted_list_of_set (set ys)"
    using assms(1) by (simp add: sorted_list_of_set_sort_remdups distinct_remdups_id)
  also have "\<dots> = sort zs"
    using assms(2,3) by (simp add: sorted_list_of_set_sort_remdups distinct_remdups_id)
  finally show ?thesis .
qed

text \<open>
  Sorting any duplicate-free listing of the names has the same outcome: the order in which
  \<^verbatim>\<open>list(set(voice_names))\<close> lists them does not matter.
\<close>

lemma sort_of_any_listing:
  assumes "distinct ys" and "set ys = set xs"
  shows "py_sort ys = py_sort (remdups xs)"
proof -
  have len: "length ys = length (remdups xs)"
    using assms by (metis distinct_card length_remdups_card_conv)
  show ?thesis
  proof (cases "NameNone \<in> set ys")
    case none: True
    show ?thesis
    proof (cases "2 \<le> length ys")
      case True
      with none len assms(2) show ?thesis by (simp add: py_sort_def)
    next
      case False
      with none have ys: "ys = [NameNone]"
        by (cases ys) (auto simp: Suc_le_eq)
      with len obtain z where z: "remdups xs = [z]"
        by (cases "remdups xs") auto
      have "set (remdups xs) = set ys"
        using assms(2) by simp
      with ys z have "remdups xs = [NameNone]" by simp
      with ys show ?thesis by simp
    qed
  next
    case False
    then have no: "NameNone \<notin> set (remdups xs)"
      using assms(2) by simp
    have "sort (strings_of ys) = sort (strings_of (remdups xs))"
    proof (rule sort_distinct_strings)
      show "distinct (strings_of ys)"
        using assms(1) by (rule strings_of_distinct)
      show "distinct (strings_of (remdups xs))"
        by (rule strings_of_distinct) simp
      show "set (strings_of ys) = set (strings_of (remdups xs))"
        using assms(2) by (simp add: strings_of_set)
    qed
    with False no show ?thesis by (simp add: py_sort_strings)
  qed
qed

lemma voice_names_of_response:
  "voice_names_of (GetVoicesResponse (Some (PyList vs))) s =
     (s\<lparr>events := events s @ concat (map item_warning vs)\<rparr>,
      py_sort (remdups (names_of vs)))"
  by (cases vs) (simp_all add: voice_names_of_def collect_voice_names_eq emit_def py_sort_def)



text \<open>
  When every exposed name is a string, the listing gives the names sorted, each once, and
  one warning for each item that exposes none.
\<close>

lemma string_names_listed:
  assumes "NameNone \<notin> set (names_of vs)"
  shows "voice_names_of (GetVoicesResponse (Some (PyList vs))) s =
     (s\<lparr>events := events s @ concat (map item_warning vs)\<rparr>,
      Inr (map NameStr (sort (remdups (strings_of (names_of vs))))))"
  using assms by (simp add: voice_names_of_response py_sort_strings strings_of_remdups)

lemma names_of_set: "set (names_of vs) = {n. Named n \<in> set vs}"
  by (induction vs rule: names_of.induct) auto

lemma nameless_warnings:
  "filter (\<lambda>ev. ev = StWarning (ItemNoName Nameless)) (concat (map item_warning vs)) =
     replicate (count_list vs Nameless) (StWarning (ItemNoName Nameless))"
  by (induction vs rule: names_of.induct) auto

text \<open>Which statements of the two \<^verbatim>\<open>try\<close> bodies raise.\<close>

lemma elevenlabs_try_raises_iff:
  "(\<exists>s'. elevenlabs_try w text' voice voice_settings s = (s', Inl e)) \<longleftrightarrow>
     (let r = generate w (generate_params text' voice voice_settings) in
      r = Inl e \<or> (\<exists>chunks. r = Inr (Stream chunks (Some e)))
      \<or> ((\<exists>chunks. r = Inr (Stream chunks None))
          \<and> (tmp_create w = Some e
              \<or> tmp_create w = None \<and> (tmp_write w = Some e
                  \<or> tmp_write w = None \<and> tmp_unlink w = Some e))))"
  by (auto simp: elevenlabs_try_def Let_def split: sum.splits audio_stream.splits option.splits)

lemma gtts_try_raises_iff:
  "(\<exists>s'. gtts_try w text' s = (s', Inl e)) \<longleftrightarrow> gtts w text' ''en'' False = Inl e"
  by (auto simp: gtts_try_def Let_def split: sum.splits)

text \<open>The primary path calls \<^verbatim>\<open>generate\<close> once, with the prepared parameters.\<close>

lemma primary_calls_convert:
  assumes "text' \<noteq> []" and "elevenlabs_client g \<noteq> None"
  shows "primary_calls (fst (convert_text_to_speech_elevenlabs w g text' voice vs s)) =
           primary_calls s @ [Generate (generate_params text' voice vs)]"
  using assms
  by (auto simp: convert_text_to_speech_elevenlabs_def elevenlabs_try_def primary_calls_def
      Let_def split: sum.splits audio_stream.splits option.splits)

text \<open>When the primary path returns audio, the staged file is gone again.\<close>

lemma staged_file_removed_on_success:
  assumes "convert_text_to_speech_elevenlabs w g text' voice vs s = (s', Some audio)"
    and "files s (tmp_name w) = None"
  shows "files s' = files s"
  using assms
  by (auto simp: convert_text_to_speech_elevenlabs_def elevenlabs_try_def Let_def
      split: if_splits sum.splits audio_stream.splits option.splits)

text \<open>Without a client, nothing is sent to the primary backend; a client needs a key.\<close>

lemma gtts_no_primary_call:
  "primary_calls (fst (convert_text_to_speech_gtts w text' s)) = primary_calls s"
  by (simp add: convert_text_to_speech_gtts_def gtts_try_def primary_calls_def Let_def
      split: sum.splits)

lemma story_no_primary_call:
  "primary_calls (fst (generate_story_from_image w g image_data prompt s)) = primary_calls s"
  by (simp add: generate_story_from_image_def story_try_def primary_calls_def Let_def
      split: sum.splits list.splits image_data.splits)

lemma emit_no_primary_call:
  "\<not> is_primary_call ev \<Longrightarrow> primary_calls (emit ev s) = primary_calls s"
  by (simp add: primary_calls_def)

lemma present_story_needs_client:
  assumes "elevenlabs_client g = None"
  shows "primary_calls (fst (present_story w g story sv vs s)) = primary_calls s"
proof (cases "story_usable story")
  case False
  then show ?thesis by (simp add: present_story_def)
next
  case True
  let ?s1 = "emit (StWrite story) (emit (StSubheader ''Generated Story:'') s)"
  have d: "dispatch_speech w g story sv vs ?s1 = convert_text_to_speech_gtts w story ?s1"
    using assms by (simp add: dispatch_speech_def primary_selected_def)
  obtain s2 audio where c: "convert_text_to_speech_gtts w story ?s1 = (s2, audio)"
    by (cases "convert_text_to_speech_gtts w story ?s1")
  have "primary_calls s2 = primary_calls ?s1"
    using gtts_no_primary_call [of w story ?s1] c by simp
  also have "\<dots> = primary_calls s"
    by (simp add: emit_no_primary_call)
  finally have s2: "primary_calls s2 = primary_calls s" .
  show ?thesis
    using True s2
    by (simp add: present_story_def d c emit_no_primary_call split: option.splits)
qed

lemma primary_needs_client:
  assumes "elevenlabs_client g = None"
  shows "primary_calls (fst (create_story_and_speech w g ui sv vs s)) = primary_calls s"
  by (simp add: create_story_and_speech_def present_story_needs_client [OF assms]
      story_no_primary_call emit_no_primary_call case_prod_beta
      split: option.splits sum.splits)

lemma client_needs_key:
  "elevenlabs_client (snd (startup w gemini s)) = Some c \<Longrightarrow>
     \<exists>k. secrets_get w = Inr k \<and> k \<noteq> [] \<and> ElevenLabs w k = Inr c"
  by (auto simp: startup_def configure_elevenlabs_def Let_def split: sum.splits if_splits)

text \<open>The failure strings of the story generator are failure sentinels, and line 301 rejects them.\<close>

lemma failure_sentinel_not_usable: "failure_sentinel story \<Longrightarrow> \<not> story_usable story"
  by (auto simp: failure_sentinel_def story_usable_def)

lemma story_failures_are_sentinels:
  "\<not> gemini_api_configured g \<Longrightarrow>
     failure_sentinel (snd (generate_story_from_image w g image_data prompt s))"
  "story_try w image_data prompt s = (s', Inl e) \<Longrightarrow>
     failure_sentinel (snd (generate_story_from_image w g image_data prompt s))"
  "generate_content w ''image/png'' b ([CHR 0x0A, CHR 0x0A] @ prompt) = Inr [] \<Longrightarrow>
     failure_sentinel (snd (generate_story_from_image w g (BytesIO b) prompt s))"
  "generate_content w ''image/png'' b ([CHR 0x0A, CHR 0x0A] @ prompt) = Inr ([] # cs) \<Longrightarrow>
     failure_sentinel (snd (generate_story_from_image w g (BytesIO b) prompt s))"
  by (auto simp: generate_story_from_image_def failure_sentinel_def startswith_def
      story_try_def Let_def)

text \<open>The run with the invalid key, step by step.\<close>

lemma probe_fails_globals_sel:
  "gemini_api_configured probe_fails_globals"
  "elevenlabs_client probe_fails_globals = Some (Client ''sk-test'')"
  "\<not> elevenlabs_configured probe_fails_globals"
  by (simp_all add: probe_fails_globals_def)

lemma probe_fails_startup:
  "startup probe_fails_world True init_state =
     (\<lparr>events = [VoicesGetAll, StError (ElevenLabsInitFailed (PyException ''401 Unauthorized''))],
       files = Map.empty\<rparr>, probe_fails_globals)"
  by (simp add: probe_fails_world_def good_world_def init_state_def startup_def
      configure_elevenlabs_def probe_fails_globals_def emit_def)

lemma probe_fails_voice_options:
  "voice_options probe_fails_world probe_fails_globals good_inputs s =
     (s\<lparr>events := events s @ [StText ''Using ElevenLabs for human-like voice.'', VoicesGetAll,
                               StError (VoicesFetchFailed (PyException ''401 Unauthorized''))]\<rparr>,
      Some ''Rachel'', Some [(''stability'', 0.3), (''clarity'', 0.9)])"
  by (simp add: probe_fails_world_def good_world_def probe_fails_globals_sel good_inputs_def
      voice_options_def voices_try_def st_slider_def emit_def)

lemma probe_fails_story:
  "generate_story_from_image probe_fails_world probe_fails_globals (BytesIO b) prompt s =
     (emit (GenerateContent ''image/png'' b ([CHR 0x0A, CHR 0x0A] @ prompt)) s, ''Once upon a time.'')"
  by (simp add: probe_fails_world_def good_world_def probe_fails_globals_sel
      generate_story_from_image_def story_try_def Let_def)

lemma story_usable_once: "story_usable ''Once upon a time.''"
  by (simp add: story_usable_def startswith_def)

lemma probe_fails_present:
  "synthesis_calls (fst (present_story probe_fails_world probe_fails_globals ''Once upon a time.''
       (Some ''Rachel'') (Some [(''stability'', 0.3), (''clarity'', 0.9)]) s)) =
     synthesis_calls s @ [Generate \<lparr>gp_text = ''Once upon a time.'', gp_voice = ''Rachel'',
                  gp_model = ''eleven_multilingual_v2'',
                  gp_voice_settings = Some \<lparr>stability = 0.3, similarity_boost = 0.9\<rparr>\<rparr>]"
  by (simp add: present_story_def story_usable_once dispatch_speech_def primary_selected_def
      probe_fails_globals_sel convert_text_to_speech_elevenlabs_def elevenlabs_try_def
      probe_fails_world_def good_world_def generate_params_def dict_get_def
      synthesis_calls_def Let_def)

lemma probe_fails_create:
  "create_story_and_speech probe_fails_world probe_fails_globals good_inputs sv vs s =
     present_story probe_fails_world probe_fails_globals ''Once upon a time.'' sv vs
       (emit (GenerateContent ''image/png'' [0x89, 0x50]
          ([CHR 0x0A, CHR 0x0A] @ ''Tell a short story'')) s)"
  by (simp add: create_story_and_speech_def st_button_def probe_fails_story
      good_inputs_def probe_fails_globals_sel)

subsection \<open>Backend selection\<close>

text \<open>
  C1. A backend is selected for synthesis only if its credential is present and the startup
  probe against it succeeded; after a failed probe no synthesis call goes to the primary
  backend. The script does not do this. With a key that the backend refuses, the probe of
  line 47 fails and \<^verbatim>\<open>elevenlabs_configured\<close> is \<open>False\<close>, but \<^verbatim>\<open>elevenlabs_client\<close> keeps the
  client built at line 43, and lines 207 and 307 test the client: the story is sent to
  \<^verbatim>\<open>elevenlabs_client.generate\<close>, and the fallback is never called. What does hold is
  \<open>primary_needs_client\<close> with \<open>client_needs_key\<close>.
\<close>

theorem failed_probe_still_dispatches_to_primary:
  "elevenlabs_configured (snd (startup probe_fails_world True init_state)) = False
   \<and> elevenlabs_client (snd (startup probe_fails_world True init_state)) = Some (Client ''sk-test'')
   \<and> synthesis_calls (fst (run_app probe_fails_world True good_inputs init_state)) =
       [Generate \<lparr>gp_text = ''Once upon a time.'', gp_voice = ''Rachel'',
                  gp_model = ''eleven_multilingual_v2'',
                  gp_voice_settings = Some \<lparr>stability = 0.3, similarity_boost = 0.9\<rparr>\<rparr>]"
proof -
  let ?s3 = "\<lparr>events = [VoicesGetAll,
                StError (ElevenLabsInitFailed (PyException ''401 Unauthorized'')),
                StText ''Using ElevenLabs for human-like voice.'', VoicesGetAll,
                StError (VoicesFetchFailed (PyException ''401 Unauthorized'')),
                GenerateContent ''image/png'' [0x89, 0x50]
                  ([CHR 0x0A, CHR 0x0A] @ ''Tell a short story'')],
              files = Map.empty\<rparr>"
  have run: "run_app probe_fails_world True good_inputs init_state =
      present_story probe_fails_world probe_fails_globals ''Once upon a time.''
        (Some ''Rachel'') (Some [(''stability'', 0.3), (''clarity'', 0.9)]) ?s3"
    by (simp add: run_app_def probe_fails_startup probe_fails_voice_options
        probe_fails_create emit_def)
  have none_before: "synthesis_calls ?s3 = []"
    by (simp add: synthesis_calls_def)
  show ?thesis
    by (simp only: run probe_fails_present none_before probe_fails_startup snd_conv
        probe_fails_globals_sel append_Nil simp_thms)
qed

subsection \<open>Voice catalogue\<close>




text \<open>
  C8. Each record without a name is skipped with a warning of its own, the names of the
  other records are returned, and the listing is never aborted. The script does this for a
  record that has no \<^verbatim>\<open>name\<close> attribute (\<open>string_names_listed\<close>), not for one whose \<^verbatim>\<open>name\<close> is
  \<^verbatim>\<open>None\<close>: \<^verbatim>\<open>hasattr\<close> is true for it, so it is not skipped and gets no warning, \<^verbatim>\<open>None\<close> is
  appended, the sort of line 254 raises, and the \<^verbatim>\<open>except\<close> of line 261 drops the whole
  listing for the default voice.
\<close>

theorem none_name_aborts_listing:
  "voice_options none_name_world good_globals good_inputs init_state =
     (\<lparr>events = [StText ''Using ElevenLabs for human-like voice.'', VoicesGetAll,
                 StError (VoicesFetchFailed sort_type_error)],
       files = Map.empty\<rparr>,
      Some ''Rachel'', Some [(''stability'', 0.3), (''clarity'', 0.9)])"
  by (simp add: voice_options_def voices_try_def voice_names_of_response none_name_world_def
      none_name_voices_def good_world_def good_globals_def good_inputs_def init_state_def
      py_sort_def st_slider_def emit_def)

text \<open>
  C7. If the voice-listing call raises, the resolver catches the exception, shows an error
  with it, and selects the default voice \<open>Rachel\<close>; the page goes on: the voice settings are
  built from the sliders, and a story is then sent to the primary backend with that voice.
\<close>

theorem listing_failure_falls_back_to_rachel:
  assumes "elevenlabs_client g = Some c" and "list_get_all w = Inl e"
  shows "voice_options w g ui s =
           (s\<lparr>events := events s @ [StText ''Using ElevenLabs for human-like voice.'', VoicesGetAll,
                                     StError (VoicesFetchFailed e)]\<rparr>,
            Some ''Rachel'',
            Some [(''stability'', st_slider 0.0 1.0 0.5 0.01 (stability_slider ui)),
                  (''clarity'', st_slider 0.0 1.0 0.75 0.01 (clarity_slider ui))])
         \<and> dispatch_speech w g story (Some ''Rachel'') vs s' =
             convert_text_to_speech_elevenlabs w g story ''Rachel'' vs s'"
  using assms
  by (simp add: voice_options_def voices_try_def emit_def dispatch_speech_def primary_selected_def)

theorem listing_failure_falls_back_to_rachel_witness:
  "voice_options listing_fails_world good_globals good_inputs init_state =
     (\<lparr>events = [StText ''Using ElevenLabs for human-like voice.'', VoicesGetAll,
                 StError (VoicesFetchFailed (PyException ''Connection timed out''))],
       files = Map.empty\<rparr>,
      Some ''Rachel'', Some [(''stability'', 0.3), (''clarity'', 0.9)])"
proof -
  have c: "elevenlabs_client good_globals = Some (Client ''sk-test'')"
    by (simp add: good_globals_def)
  have l: "list_get_all listing_fails_world = Inl (PyException ''Connection timed out'')"
    by (simp add: listing_fails_world_def)
  from listing_failure_falls_back_to_rachel [OF c l, of good_inputs init_state]
  show ?thesis by (simp add: init_state_def good_inputs_def st_slider_def)
qed

subsection \<open>Failure sentinels\<close>

text \<open>
  C3. For every narrative that starts with one of the failure-sentinel prefixes, neither
  speech backend is called and no audio player is shown. The state is left as it was, and
  the run ends at line 314 with \<open>NameError\<close>, \<^verbatim>\<open>audio_bytes\<close> being unbound.
\<close>

theorem failure_sentinel_no_synthesis:
  assumes "failure_sentinel story"
  shows "present_story w g story selected_voice voice_settings s = (s, Some (NameError ''audio_bytes''))
         \<and> synthesis_calls (fst (present_story w g story selected_voice voice_settings s)) =
             synthesis_calls s
         \<and> audio_players (fst (present_story w g story selected_voice voice_settings s)) =
             audio_players s"
  using failure_sentinel_not_usable [OF assms] by (simp add: present_story_def)

theorem failure_sentinel_no_synthesis_witness:
  "failure_sentinel ''Could not generate a story from the image. The response was empty or malformed.''
   \<and> present_story good_world good_globals
       ''Could not generate a story from the image. The response was empty or malformed.''
       (Some ''Rachel'') None init_state = (init_state, Some (NameError ''audio_bytes''))"
proof -
  have h: "failure_sentinel
      ''Could not generate a story from the image. The response was empty or malformed.''"
    by (simp add: failure_sentinel_def startswith_def)
  from failure_sentinel_no_synthesis [OF h, of good_world good_globals "Some ''Rachel''" None init_state]
  show ?thesis using h by simp
qed

subsection \<open>Synthesis\<close>

text \<open>
  C6. For an empty text, both synthesis operations return no result (\<open>None\<close>) and leave the
  state as it was: no backend call is recorded, no file is touched.
\<close>

theorem empty_text_no_result:
  "convert_text_to_speech_elevenlabs w g [] voice voice_settings s = (s, None)
   \<and> convert_text_to_speech_gtts w [] s = (s, None)"
  by (simp add: convert_text_to_speech_elevenlabs_def convert_text_to_speech_gtts_def)

text \<open>
  C5. On either synthesis path, when a statement of the \<^verbatim>\<open>try\<close> body raises an exception
  \<open>e\<close>, the function shows an error carrying \<open>e\<close> and returns no result (\<open>None\<close>); the result
  type of both functions has no exception in it. Which statements can raise is in
  \<open>elevenlabs_try_raises_iff\<close> and \<open>gtts_try_raises_iff\<close>.
\<close>

theorem synthesis_exceptions_caught:
  "(text' \<noteq> [] \<and> elevenlabs_client g \<noteq> None
      \<and> elevenlabs_try w text' voice voice_settings s = (s1, Inl e)
      \<longrightarrow> convert_text_to_speech_elevenlabs w g text' voice voice_settings s =
            (emit (StError (ElevenLabsSpeechError e)) s1, None))
   \<and> (text' \<noteq> [] \<and> gtts_try w text' s = (s2, Inl e)
      \<longrightarrow> convert_text_to_speech_gtts w text' s = (emit (StError (GttsError e)) s2, None))"
  by (simp add: convert_text_to_speech_elevenlabs_def convert_text_to_speech_gtts_def)

theorem synthesis_exceptions_caught_witness:
  "convert_text_to_speech_elevenlabs generate_fails_world good_globals ''Once'' ''Rachel'' None
       init_state =
     (emit (StError (ElevenLabsSpeechError (PyException ''quota exceeded'')))
        (emit (Generate (generate_params ''Once'' ''Rachel'' None)) init_state), None)
   \<and> convert_text_to_speech_gtts generate_fails_world ''Once'' init_state =
     (emit (StError (GttsError (PyException ''Failed to connect'')))
        (emit (Gtts ''Once'' ''en'' False) init_state), None)"
proof -
  let ?s1 = "emit (Generate (generate_params ''Once'' ''Rachel'' None)) init_state"
  let ?s2 = "emit (Gtts ''Once'' ''en'' False) init_state"
  have t: "''Once'' \<noteq> []" by simp
  have c: "elevenlabs_client good_globals \<noteq> None" by (simp add: good_globals_def)
  have b1: "elevenlabs_try generate_fails_world ''Once'' ''Rachel'' None init_state =
      (?s1, Inl (PyException ''quota exceeded''))"
    by (simp add: elevenlabs_try_def generate_fails_world_def good_world_def)
  have b2: "gtts_try generate_fails_world ''Once'' init_state =
      (?s2, Inl (PyException ''Failed to connect''))"
    by (simp add: gtts_try_def generate_fails_world_def good_world_def)
  have "convert_text_to_speech_elevenlabs generate_fails_world good_globals ''Once'' ''Rachel'' None
       init_state = (emit (StError (ElevenLabsSpeechError (PyException ''quota exceeded''))) ?s1, None)"
    using synthesis_exceptions_caught [of "''Once''" good_globals generate_fails_world
        "''Rachel''" None init_state ?s1 "PyException ''quota exceeded''"] t c b1
    by blast
  moreover have "convert_text_to_speech_gtts generate_fails_world ''Once'' init_state =
      (emit (StError (GttsError (PyException ''Failed to connect''))) ?s2, None)"
    using synthesis_exceptions_caught [of "''Once''" good_globals generate_fails_world
        "''Rachel''" None init_state _ "PyException ''Failed to connect''" ?s2] t b2
    by blast
  ultimately show ?thesis by simp
qed

text \<open>
  C9. On every execution of the primary path, success or failure, the temporary file that
  stages the audio is removed before the function returns. The script does not do this on
  failure: the file is made with \<^verbatim>\<open>delete=False\<close> and unlinked after the \<^verbatim>\<open>with\<close> block, not
  in a \<^verbatim>\<open>finally\<close>, so when writing raises (a full disk), the function shows the error,
  returns \<open>None\<close>, and the file stays. On success the file is removed
  (\<open>staged_file_removed_on_success\<close>).
\<close>

theorem failed_write_leaves_temp_file:
  "convert_text_to_speech_elevenlabs write_fails_world good_globals ''Once upon a time.''
       ''Rachel'' None init_state =
     (\<lparr>events = [Generate (generate_params ''Once upon a time.'' ''Rachel'' None),
                 StError (ElevenLabsSpeechError
                   (PyException ''[Errno 28] No space left on device''))],
       files = [''/tmp/tmpk3v9.mp3'' \<mapsto> []]\<rparr>, None)
   \<and> files init_state ''/tmp/tmpk3v9.mp3'' = None"
  by (simp add: write_fails_world_def good_world_def good_globals_def init_state_def
      convert_text_to_speech_elevenlabs_def elevenlabs_try_def emit_def Let_def)

subsection \<open>Voice settings\<close>

text \<open>
  A call of the primary path with voice settings that hold both keys carries the two values
  as they are; the function itself changes neither.
\<close>

lemma settings_keys_passed_verbatim:
  assumes "text' \<noteq> []" and "elevenlabs_client g \<noteq> None"
    and "map_of m ''stability'' = Some st" and "map_of m ''clarity'' = Some cl"
  shows "primary_calls (fst (convert_text_to_speech_elevenlabs w g text' voice (Some m) s)) =
           primary_calls s @ [Generate \<lparr>gp_text = text', gp_voice = voice,
             gp_model = ''eleven_multilingual_v2'',
             gp_voice_settings = Some \<lparr>stability = st, similarity_boost = cl\<rparr>\<rparr>]"
proof -
  from assms(3) have "m \<noteq> []" by auto
  with assms show ?thesis
    by (simp add: primary_calls_convert generate_params_def dict_get_def)
qed

text \<open>
  C4. With a client, the voice settings of the page are the values of the two sliders,
  which lie between 0.0 and 1.0, and every call of the primary path with these settings
  and a non-empty text sends one request whose settings payload carries the \<open>stability\<close>
  value as \<open>stability\<close> and the \<open>clarity\<close> value as \<open>similarity_boost\<close>, as they are.
\<close>

theorem tone_parameters_verbatim_in_range:
  assumes "text' \<noteq> []" and "elevenlabs_client g = Some c"
  shows "snd (snd (voice_options w g ui s)) =
           Some [(''stability'', st_slider 0.0 1.0 0.5 0.01 (stability_slider ui)),
                 (''clarity'', st_slider 0.0 1.0 0.75 0.01 (clarity_slider ui))]
         \<and> primary_calls (fst (convert_text_to_speech_elevenlabs w g text' voice
               (snd (snd (voice_options w g ui s))) s')) =
             primary_calls s' @ [Generate \<lparr>gp_text = text', gp_voice = voice,
               gp_model = ''eleven_multilingual_v2'',
               gp_voice_settings =
                 Some \<lparr>stability = st_slider 0.0 1.0 0.5 0.01 (stability_slider ui),
                       similarity_boost = st_slider 0.0 1.0 0.75 0.01 (clarity_slider ui)\<rparr>\<rparr>]
         \<and> 0 \<le> st_slider 0.0 1.0 0.5 0.01 (stability_slider ui)
         \<and> st_slider 0.0 1.0 0.5 0.01 (stability_slider ui) \<le> 1
         \<and> 0 \<le> st_slider 0.0 1.0 0.75 0.01 (clarity_slider ui)
         \<and> st_slider 0.0 1.0 0.75 0.01 (clarity_slider ui) \<le> 1"
proof -
  have settings: "snd (snd (voice_options w g ui s)) =
           Some [(''stability'', st_slider 0.0 1.0 0.5 0.01 (stability_slider ui)),
                 (''clarity'', st_slider 0.0 1.0 0.75 0.01 (clarity_slider ui))]"
    using assms(2) by (simp add: voice_options_def case_prod_beta Let_def)
  have client: "elevenlabs_client g \<noteq> None"
    using assms(2) by simp
  have call: "primary_calls (fst (convert_text_to_speech_elevenlabs w g text' voice
               (snd (snd (voice_options w g ui s))) s')) =
             primary_calls s' @ [Generate \<lparr>gp_text = text', gp_voice = voice,
               gp_model = ''eleven_multilingual_v2'',
               gp_voice_settings =
                 Some \<lparr>stability = st_slider 0.0 1.0 0.5 0.01 (stability_slider ui),
                       similarity_boost = st_slider 0.0 1.0 0.75 0.01 (clarity_slider ui)\<rparr>\<rparr>]"
    unfolding settings
    by (rule settings_keys_passed_verbatim [OF assms(1) client]) simp_all
  have range: "0 \<le> st_slider 0.0 1.0 v st p \<and> st_slider 0.0 1.0 v st p \<le> 1" for v st p
    by (simp add: st_slider_def)
  from settings call range show ?thesis by simp
qed

theorem tone_parameters_verbatim_in_range_witness:
  "primary_calls (fst (convert_text_to_speech_elevenlabs good_world good_globals ''Hello'' ''Aria''
       (snd (snd (voice_options good_world good_globals good_inputs init_state))) init_state)) =
     [Generate \<lparr>gp_text = ''Hello'', gp_voice = ''Aria'', gp_model = ''eleven_multilingual_v2'',
                gp_voice_settings = Some \<lparr>stability = 0.3, similarity_boost = 0.9\<rparr>\<rparr>]"
proof -
  have t: "''Hello'' \<noteq> []" by simp
  have c: "elevenlabs_client good_globals = Some (Client ''sk-test'')"
    by (simp add: good_globals_def)
  note sent = tone_parameters_verbatim_in_range [OF t c, of good_world good_inputs init_state
      "''Aria''" init_state, THEN conjunct2, THEN conjunct1]
  from sent show ?thesis
    by (simp add: primary_calls_def init_state_def good_inputs_def st_slider_def)
qed

text \<open>
  C10, as stated: voice settings that omit a key give a payload with the defaults. It fails
  for the empty mapping, which omits both keys: \<^verbatim>\<open>if voice_settings:\<close> is false for it, and
  the call is sent with no settings payload at all.
\<close>

theorem empty_settings_send_no_payload:
  "primary_calls (fst (convert_text_to_speech_elevenlabs good_world good_globals ''Hello''
       ''Rachel'' (Some []) init_state)) =
     [Generate \<lparr>gp_text = ''Hello'', gp_voice = ''Rachel'', gp_model = ''eleven_multilingual_v2'',
                gp_voice_settings = None\<rparr>]
   \<and> map_of ([] :: settings) ''stability'' = None
   \<and> map_of ([] :: settings) ''clarity'' = None"
  by (simp add: good_world_def good_globals_def init_state_def
      convert_text_to_speech_elevenlabs_def elevenlabs_try_def generate_params_def
      primary_calls_def emit_def Let_def)

text \<open>
  C10, amended. When the primary path is called with a non-empty text, a client and a
  non-empty voice-settings mapping, the call carries a settings payload, in which
  \<open>stability\<close> is 0.5 when the mapping has no \<open>stability\<close> key and \<open>similarity_boost\<close> is 0.75
  when it has no \<open>clarity\<close> key.
\<close>

theorem missing_keys_take_defaults:
  assumes "text' \<noteq> []" and "elevenlabs_client g \<noteq> None" and "m \<noteq> []"
  shows "primary_calls (fst (convert_text_to_speech_elevenlabs w g text' voice (Some m) s)) =
           primary_calls s @ [Generate (generate_params text' voice (Some m))]
         \<and> gp_voice_settings (generate_params text' voice (Some m)) \<noteq> None
         \<and> (map_of m ''stability'' = None \<longrightarrow>
              map_option stability (gp_voice_settings (generate_params text' voice (Some m))) =
                Some 0.5)
         \<and> (map_of m ''clarity'' = None \<longrightarrow>
              map_option similarity_boost (gp_voice_settings (generate_params text' voice (Some m))) =
                Some 0.75)"
  using assms by (simp add: primary_calls_convert generate_params_def dict_get_def)

theorem missing_keys_take_defaults_witness:
  "primary_calls (fst (convert_text_to_speech_elevenlabs good_world good_globals ''Hello'' ''Rachel''
       (Some [(''stability'', 0.3)]) init_state)) =
     [Generate (generate_params ''Hello'' ''Rachel'' (Some [(''stability'', 0.3)]))]
   \<and> map_of [(''stability'', 0.3::real)] ''clarity'' = None
   \<and> map_option similarity_boost
        (gp_voice_settings (generate_params ''Hello'' ''Rachel'' (Some [(''stability'', 0.3)]))) =
       Some 0.75"
proof -
  have t: "''Hello'' \<noteq> []" by simp
  have c: "elevenlabs_client good_globals \<noteq> None" by (simp add: good_globals_def)
  have m: "[(''stability'', 0.3::real)] \<noteq> []" by simp
  have k: "map_of [(''stability'', 0.3::real)] ''clarity'' = None" by simp
  from missing_keys_take_defaults [OF t c m, of good_world "''Rachel''" init_state] k
  show ?thesis by (simp add: primary_calls_def init_state_def)
qed

end
